theory Spec2Isabelle
  imports Main "HOL-Library.Word"
begin

section \<open>JavaScript values\<close>

text \<open>
  The Alert component of tinky-alert (\<^verbatim>\<open>src/components/Alert.tsx\<close>) and its theme
  (\<^verbatim>\<open>src/themes/alert-theme.tsx\<close>) are TypeScript: the types are erased when the
  code runs, so a \<^verbatim>\<open>variant\<close> is a JavaScript string at run time, whatever its
  declared type says. A JavaScript string is a sequence of UTF-16 code units.
  \<open>js\<close> writes an ASCII literal of the source as such a sequence.
\<close>

type_synonym jschar = "16 word"
type_synonym jsstring = "jschar list"

definition js :: "string \<Rightarrow> jsstring" where
  "js s = map (\<lambda>c. of_nat (of_char c)) s"

text \<open>
  The two components of the tinky framework that \<^verbatim>\<open>Alert\<close> instantiates.
\<close>

datatype component = Box | Text

text \<open>
  The values that occur: \<^verbatim>\<open>undefined\<close>, the number literals of the source (only
  \<^verbatim>\<open>0\<close> and \<^verbatim>\<open>1\<close> occur), booleans, strings, a member that an object literal
  inherits from \<^verbatim>\<open>Object.prototype\<close> (named by its key; it is a function or an object,
  never a string and never \<^verbatim>\<open>undefined\<close>), and a JSX element: its component, its
  props in the order they were written, and its children.
\<close>

datatype jsval =
    Undefined
  | Num int
  | Bool bool
  | Str jsstring
  | Inherited jsstring
  | Elem component "(jsstring \<times> jsval) list" "jsval list"

type_synonym jsobject = "(jsstring \<times> jsval) list"

text \<open>
  The property names every object literal inherits from \<^verbatim>\<open>Object.prototype\<close>
  (ECMAScript, Properties of the Object Prototype Object, with the legacy accessors
  that Node and Bun provide).
\<close>

definition Object_prototype :: "jsstring list" where
  "Object_prototype =
     [js ''constructor'', js ''hasOwnProperty'', js ''isPrototypeOf'',
      js ''propertyIsEnumerable'', js ''toLocaleString'', js ''toString'',
      js ''valueOf'', js ''__proto__'', js ''__defineGetter__'',
      js ''__defineSetter__'', js ''__lookupGetter__'', js ''__lookupSetter__'']"

text \<open>
  The member access \<^verbatim>\<open>obj[key]\<close> on an object literal: the own property when there is
  one, otherwise what the prototype chain has under that key, otherwise
  \<^verbatim>\<open>undefined\<close>. It never throws.
\<close>

definition js_get :: "jsobject \<Rightarrow> jsstring \<Rightarrow> jsval" where
  "js_get obj k =
     (case map_of obj k of
        Some v \<Rightarrow> v
      | None \<Rightarrow> if k \<in> set Object_prototype then Inherited k else Undefined)"

section \<open>The theme: alert-theme.tsx\<close>

text \<open>
  The members of the union type
  \<^verbatim>\<open>"info" | "success" | "error" | "warning"\<close> of \<^verbatim>\<open>AlertThemeProps.variant\<close>.
\<close>

definition variants :: "jsstring list" where
  "variants = [js ''info'', js ''success'', js ''error'', js ''warning'']"

record AlertThemeProps =
  variant :: jsstring

definition colorByVariant :: jsobject where
  "colorByVariant =
     [(js ''info'', Str (js ''blue'')),
      (js ''success'', Str (js ''green'')),
      (js ''error'', Str (js ''red'')),
      (js ''warning'', Str (js ''yellow''))]"

text \<open>
  The style functions \<^verbatim>\<open>alertTheme.styles.*\<close>. Each returns an object literal; the
  ones without a parameter take \<open>()\<close>.
\<close>

definition styles_container :: "'a AlertThemeProps_scheme \<Rightarrow> jsobject" where
  "styles_container p =
     [(js ''flexGrow'', Num 1),
      (js ''borderStyle'', Str (js ''round'')),
      (js ''borderColor'', js_get colorByVariant (variant p)),
      (js ''gap'', Num 1),
      (js ''paddingX'', Num 1)]"

definition styles_iconContainer :: "unit \<Rightarrow> jsobject" where
  "styles_iconContainer u = [(js ''flexShrink'', Num 0)]"

definition styles_icon :: "'a AlertThemeProps_scheme \<Rightarrow> jsobject" where
  "styles_icon p = [(js ''color'', js_get colorByVariant (variant p))]"

definition styles_content :: "unit \<Rightarrow> jsobject" where
  "styles_content u =
     [(js ''flexShrink'', Num 1),
      (js ''flexGrow'', Num 1),
      (js ''minWidth'', Num 0),
      (js ''flexDirection'', Str (js ''column'')),
      (js ''gap'', Num 1)]"

definition styles_title :: "unit \<Rightarrow> jsobject" where
  "styles_title u = [(js ''bold'', Bool True)]"

definition styles_message :: "unit \<Rightarrow> jsobject" where
  "styles_message u = []"

section \<open>The collaborators of Alert\<close>

text \<open>
  The fields of the figure table of tinky-figures that \<^verbatim>\<open>Alert\<close> reads.
\<close>

record figures =
  info :: jsstring
  tick :: jsstring
  cross :: jsstring
  warning :: jsstring

text \<open>
  Modelled from the spec: the glyph table \<^verbatim>\<open>unicodeFigures\<close> of the tinky-figures
  package, which is not under src/. The column "Unicode icon" of the spec's table
  (section 4.1), as in the header of Alert.tsx: U+2139, U+2714, U+2718, U+26A0.
\<close>

definition unicodeFigures :: figures where
  "unicodeFigures = \<lparr>info = [0x2139], tick = [0x2714], cross = [0x2718], warning = [0x26A0]\<rparr>"

text \<open>
  Modelled from the spec: the glyph table \<^verbatim>\<open>asciiFigures\<close> of the tinky-figures
  package, which is not under src/. The column "ASCII fallback" of the spec's table
  (section 4.1), as in the header of Alert.tsx: \<^verbatim>\<open>i\<close>, U+221A, U+00D7, U+203C.
\<close>

definition asciiFigures :: figures where
  "asciiFigures = \<lparr>info = [0x69], tick = [0x221A], cross = [0xD7], warning = [0x203C]\<rparr>"

text \<open>
  Modelled from the spec: the hook \<^verbatim>\<open>useFigures\<close> of tinky-figures, which is not under
  src/. Selection rule of the spec (section 4.1): the Unicode table when the capability flag
  is true, the fallback table otherwise. The flag is what \<^verbatim>\<open>isUnicodeSupported\<close> says of
  the platform and the environment; it is an input of the model.
\<close>

definition useFigures :: "bool \<Rightarrow> figures" where
  "useFigures unicodeSupported = (if unicodeSupported then unicodeFigures else asciiFigures)"

text \<open>
  An exception is a thrown JavaScript value. Nothing in Alert.tsx or alert-theme.tsx
  throws; the only call of \<^verbatim>\<open>Alert\<close> whose behaviour the repository does not fix is the
  hook \<^verbatim>\<open>useComponentTheme\<close> of tinky-theme. It is a parameter of the model: given the
  component name and the theme props (its second argument is the constant
  \<^verbatim>\<open>alertTheme\<close>), it either throws (\<open>Some e\<close>) or returns (\<open>None\<close>); \<^verbatim>\<open>Alert\<close>
  discards what it returns.
\<close>

datatype error = Thrown jsval

type_synonym theme_hook = "jsstring \<Rightarrow> AlertThemeProps \<Rightarrow> error option"

text \<open>
  Modelled from the spec: the theme hook as the spec describes it (section 9: given the
  component id and the current props, it returns an override style record or none); it
  raises nothing.
\<close>

definition useComponentTheme :: theme_hook where
  "useComponentTheme name props = None"

section \<open>The component: Alert.tsx\<close>

record AlertProps = AlertThemeProps +
  children :: jsval
  title :: "jsstring option"

text \<open>
  The object literal \<^verbatim>\<open>iconMap\<close> that \<^verbatim>\<open>Alert\<close> builds from the figure table.
\<close>

definition iconMap :: "figures \<Rightarrow> jsobject" where
  "iconMap fs =
     [(js ''info'', Str (info fs)),
      (js ''success'', Str (tick fs)),
      (js ''error'', Str (cross fs)),
      (js ''warning'', Str (warning fs))]"

text \<open>
  \<^verbatim>\<open>Alert\<close>. The optional \<^verbatim>\<open>title\<close> is \<open>None\<close> when it is \<^verbatim>\<open>undefined\<close>. The
  expression \<^verbatim>\<open>title && <Text ...>{title}</Text>\<close> is \<^verbatim>\<open>title\<close> itself when it is falsy
  (\<^verbatim>\<open>undefined\<close> or the empty string) and the element otherwise.
\<close>

definition Alert :: "theme_hook \<Rightarrow> bool \<Rightarrow> AlertProps \<Rightarrow> error + jsval" where
  "Alert hook unicodeSupported p =
     (let props = \<lparr>variant = variant p\<rparr> in
      case hook (js ''Alert'') props of
        Some e \<Rightarrow> Inl e
      | None \<Rightarrow>
          let fs = useFigures unicodeSupported;
              icon = js_get (iconMap fs) (variant p)
          in Inr
            (Elem Box (styles_container props)
              [Elem Box (styles_iconContainer ())
                 [Elem Text (styles_icon props) [icon]],
               Elem Box (styles_content ())
                 [case title p of
                    None \<Rightarrow> Undefined
                  | Some t \<Rightarrow>
                      if t = [] then Str t
                      else Elem Text (styles_title ()) [Str t],
                  Elem Text (styles_message ()) [children p]]]))"

text \<open>
  Whether a child is an element, that is, a node of the layout. React renders nothing for
  \<^verbatim>\<open>undefined\<close> and for the empty string.
\<close>

fun is_element :: "jsval \<Rightarrow> bool" where
  "is_element (Elem c ps cs) = True"
| "is_element v = False"

section \<open>Member access on the two tables\<close>

lemma colorByVariant_get:
  "js_get colorByVariant (js ''info'') = Str (js ''blue'')"
  "js_get colorByVariant (js ''success'') = Str (js ''green'')"
  "js_get colorByVariant (js ''error'') = Str (js ''red'')"
  "js_get colorByVariant (js ''warning'') = Str (js ''yellow'')"
  by (simp_all add: js_get_def colorByVariant_def js_def)

lemma Alert_returns:
  "hook (js ''Alert'') \<lparr>variant = variant p\<rparr> = None \<Longrightarrow>
   Alert hook u p = Inr
     (Elem Box (styles_container \<lparr>variant = variant p\<rparr>)
        [Elem Box (styles_iconContainer ())
           [Elem Text (styles_icon \<lparr>variant = variant p\<rparr>)
              [js_get (iconMap (useFigures u)) (variant p)]],
         Elem Box (styles_content ())
           [case title p of
              None \<Rightarrow> Undefined
            | Some t \<Rightarrow> if t = [] then Str t else Elem Text (styles_title ()) [Str t],
            Elem Text (styles_message ()) [children p]]])"
  by (simp add: Alert_def Let_def)

lemma Alert_throws_iff:
  "Alert hook u p = Inl e \<longleftrightarrow> hook (js ''Alert'') \<lparr>variant = variant p\<rparr> = Some e"
  by (simp add: Alert_def Let_def split: option.splits)

lemma js_get_outside:
  "v \<notin> set variants \<Longrightarrow>
   js_get colorByVariant v = (if v \<in> set Object_prototype then Inherited v else Undefined)"
  by (simp add: variants_def js_get_def colorByVariant_def)

lemma iconMap_get_outside:
  "v \<notin> set variants \<Longrightarrow>
   js_get (iconMap fs) v = (if v \<in> set Object_prototype then Inherited v else Undefined)"
  by (simp add: variants_def js_get_def iconMap_def)

lemma iconMap_get:
  "js_get (iconMap fs) (js ''info'') = Str (info fs)"
  "js_get (iconMap fs) (js ''success'') = Str (tick fs)"
  "js_get (iconMap fs) (js ''error'') = Str (cross fs)"
  "js_get (iconMap fs) (js ''warning'') = Str (warning fs)"
  by (simp_all add: js_get_def iconMap_def js_def)

lemma useFigures_fields:
  "info (useFigures True) = [0x2139]" "tick (useFigures True) = [0x2714]"
  "cross (useFigures True) = [0x2718]" "warning (useFigures True) = [0x26A0]"
  "info (useFigures False) = [0x69]" "tick (useFigures False) = [0x221A]"
  "cross (useFigures False) = [0xD7]" "warning (useFigures False) = [0x203C]"
  by (simp_all add: useFigures_def unicodeFigures_def asciiFigures_def)

section \<open>The variant tables and the container\<close>

text \<open>
  Claim C3. The colour table has exactly the four keys of the variant type and maps
  \<^verbatim>\<open>info\<close> to blue, \<^verbatim>\<open>success\<close> to green, \<^verbatim>\<open>error\<close> to red and
  \<^verbatim>\<open>warning\<close> to yellow. The container node that \<^verbatim>\<open>Alert\<close> returns has the
  member of that table under the variant as its \<^verbatim>\<open>borderColor\<close>: blue for an info
  alert, green for a success alert, red for an error alert, yellow for a warning alert.
\<close>

theorem colorByVariant_mapping:
  assumes "hook (js ''Alert'') \<lparr>variant = variant p\<rparr> = None"
  shows "map fst colorByVariant = variants
   \<and> js_get colorByVariant (js ''info'') = Str (js ''blue'')
   \<and> js_get colorByVariant (js ''success'') = Str (js ''green'')
   \<and> js_get colorByVariant (js ''error'') = Str (js ''red'')
   \<and> js_get colorByVariant (js ''warning'') = Str (js ''yellow'')
   \<and> map_of (styles_container \<lparr>variant = js ''info''\<rparr>) (js ''borderColor'') = Some (Str (js ''blue''))
   \<and> map_of (styles_container \<lparr>variant = js ''success''\<rparr>) (js ''borderColor'') = Some (Str (js ''green''))
   \<and> map_of (styles_container \<lparr>variant = js ''error''\<rparr>) (js ''borderColor'') = Some (Str (js ''red''))
   \<and> map_of (styles_container \<lparr>variant = js ''warning''\<rparr>) (js ''borderColor'') = Some (Str (js ''yellow''))
   \<and> (\<exists>I K. Alert hook u p =
          Inr (Elem Box
                 [(js ''flexGrow'', Num 1), (js ''borderStyle'', Str (js ''round'')),
                  (js ''borderColor'', js_get colorByVariant (variant p)),
                  (js ''gap'', Num 1), (js ''paddingX'', Num 1)]
                 [I, K]))
   \<and> (variant p = js ''info'' \<longrightarrow>
        (\<exists>B I K. Alert hook u p = Inr (Elem Box B [I, K])
           \<and> map_of B (js ''borderColor'') = Some (Str (js ''blue''))))
   \<and> (variant p = js ''success'' \<longrightarrow>
        (\<exists>B I K. Alert hook u p = Inr (Elem Box B [I, K])
           \<and> map_of B (js ''borderColor'') = Some (Str (js ''green''))))
   \<and> (variant p = js ''error'' \<longrightarrow>
        (\<exists>B I K. Alert hook u p = Inr (Elem Box B [I, K])
           \<and> map_of B (js ''borderColor'') = Some (Str (js ''red''))))
   \<and> (variant p = js ''warning'' \<longrightarrow>
        (\<exists>B I K. Alert hook u p = Inr (Elem Box B [I, K])
           \<and> map_of B (js ''borderColor'') = Some (Str (js ''yellow''))))"
proof -
  have keys: "map fst colorByVariant = variants"
    by (simp add: colorByVariant_def variants_def)
  have border: "map_of (styles_container \<lparr>variant = v\<rparr>) (js ''borderColor'')
      = Some (js_get colorByVariant v)" for v
    by (simp add: styles_container_def js_def)
  have node: "\<exists>I K. Alert hook u p =
          Inr (Elem Box
                 [(js ''flexGrow'', Num 1), (js ''borderStyle'', Str (js ''round'')),
                  (js ''borderColor'', js_get colorByVariant (variant p)),
                  (js ''gap'', Num 1), (js ''paddingX'', Num 1)]
                 [I, K])"
    using Alert_returns [of hook p u, OF assms] by (simp add: styles_container_def)
  have at: "\<exists>B I K. Alert hook u p = Inr (Elem Box B [I, K])
           \<and> map_of B (js ''borderColor'') = Some (Str c)"
    if "js_get colorByVariant (variant p) = Str c" for c
    using Alert_returns [of hook p u, OF assms] that by (simp add: border)
  show ?thesis
    using keys node at by (simp add: border colorByVariant_get)
qed

text \<open>
  One alert of each variant: the containers are blue, green, red and yellow.
\<close>

theorem colorByVariant_mapping_witness:
  "useComponentTheme (js ''Alert'') \<lparr>variant = js ''info''\<rparr> = None
   \<and> useComponentTheme (js ''Alert'') \<lparr>variant = js ''success''\<rparr> = None
   \<and> useComponentTheme (js ''Alert'') \<lparr>variant = js ''error''\<rparr> = None
   \<and> useComponentTheme (js ''Alert'') \<lparr>variant = js ''warning''\<rparr> = None
   \<and> (\<exists>B I K. Alert useComponentTheme True
          \<lparr>variant = js ''info'', children = Str (js ''Message''), title = None\<rparr>
            = Inr (Elem Box B [I, K])
        \<and> map_of B (js ''borderColor'') = Some (Str (js ''blue'')))
   \<and> (\<exists>B I K. Alert useComponentTheme True
          \<lparr>variant = js ''success'', children = Str (js ''Message''), title = None\<rparr>
            = Inr (Elem Box B [I, K])
        \<and> map_of B (js ''borderColor'') = Some (Str (js ''green'')))
   \<and> (\<exists>B I K. Alert useComponentTheme True
          \<lparr>variant = js ''error'', children = Str (js ''Message''), title = None\<rparr>
            = Inr (Elem Box B [I, K])
        \<and> map_of B (js ''borderColor'') = Some (Str (js ''red'')))
   \<and> (\<exists>B I K. Alert useComponentTheme True
          \<lparr>variant = js ''warning'', children = Str (js ''Message''), title = None\<rparr>
            = Inr (Elem Box B [I, K])
        \<and> map_of B (js ''borderColor'') = Some (Str (js ''yellow'')))"
proof -
  have hook: "useComponentTheme (js ''Alert'') \<lparr>variant = v\<rparr> = None" for v
    by (simp add: useComponentTheme_def)
  have a: "\<exists>B I K. Alert useComponentTheme True
          \<lparr>variant = js ''info'', children = Str (js ''Message''), title = None\<rparr>
            = Inr (Elem Box B [I, K])
        \<and> map_of B (js ''borderColor'') = Some (Str (js ''blue''))"
    using colorByVariant_mapping [of useComponentTheme
        "\<lparr>variant = js ''info'', children = Str (js ''Message''), title = None\<rparr>" True] hook
    by simp
  have b: "\<exists>B I K. Alert useComponentTheme True
          \<lparr>variant = js ''success'', children = Str (js ''Message''), title = None\<rparr>
            = Inr (Elem Box B [I, K])
        \<and> map_of B (js ''borderColor'') = Some (Str (js ''green''))"
    using colorByVariant_mapping [of useComponentTheme
        "\<lparr>variant = js ''success'', children = Str (js ''Message''), title = None\<rparr>" True] hook
    by simp
  have c: "\<exists>B I K. Alert useComponentTheme True
          \<lparr>variant = js ''error'', children = Str (js ''Message''), title = None\<rparr>
            = Inr (Elem Box B [I, K])
        \<and> map_of B (js ''borderColor'') = Some (Str (js ''red''))"
    using colorByVariant_mapping [of useComponentTheme
        "\<lparr>variant = js ''error'', children = Str (js ''Message''), title = None\<rparr>" True] hook
    by simp
  have d: "\<exists>B I K. Alert useComponentTheme True
          \<lparr>variant = js ''warning'', children = Str (js ''Message''), title = None\<rparr>
            = Inr (Elem Box B [I, K])
        \<and> map_of B (js ''borderColor'') = Some (Str (js ''yellow''))"
    using colorByVariant_mapping [of useComponentTheme
        "\<lparr>variant = js ''warning'', children = Str (js ''Message''), title = None\<rparr>" True] hook
    by simp
  from hook a b c d show ?thesis by blast
qed

text \<open>
  Claim C10. For every variant the \<^verbatim>\<open>color\<close> of the icon style equals the
  \<^verbatim>\<open>borderColor\<close> of the container style: both are the member of the one colour
  table under that variant.
\<close>

theorem icon_color_is_border_color:
  "map_of (styles_icon \<lparr>variant = v\<rparr>) (js ''color'')
     = map_of (styles_container \<lparr>variant = v\<rparr>) (js ''borderColor'')
   \<and> map_of (styles_icon \<lparr>variant = v\<rparr>) (js ''color'') = Some (js_get colorByVariant v)"
  by (simp add: styles_icon_def styles_container_def js_def)

text \<open>
  Claim C7. The container node that \<^verbatim>\<open>Alert\<close> returns carries the object of the
  container style: the five attributes \<^verbatim>\<open>flexGrow\<close>, \<^verbatim>\<open>borderStyle\<close>,
  \<^verbatim>\<open>borderColor\<close>, \<^verbatim>\<open>gap\<close>, \<^verbatim>\<open>paddingX\<close> and no other, with
  \<^verbatim>\<open>flexGrow\<close> 1, \<^verbatim>\<open>borderStyle\<close> round, \<^verbatim>\<open>paddingX\<close> 1 and \<^verbatim>\<open>gap\<close> 1.
  The containers of any two alerts agree on everything but \<^verbatim>\<open>borderColor\<close>, whatever
  their variants, titles, messages and Unicode support, and the four variants have four
  different border colours.
\<close>

theorem container_attributes_fixed:
  assumes "hook (js ''Alert'') \<lparr>variant = variant p\<rparr> = None"
    and "hook (js ''Alert'') \<lparr>variant = variant q\<rparr> = None"
  shows "(\<exists>B cs B' cs'.
            Alert hook u p = Inr (Elem Box B cs)
          \<and> Alert hook u' q = Inr (Elem Box B' cs')
          \<and> B = styles_container \<lparr>variant = variant p\<rparr>
          \<and> B' = styles_container \<lparr>variant = variant q\<rparr>
          \<and> map fst B =
              [js ''flexGrow'', js ''borderStyle'', js ''borderColor'', js ''gap'', js ''paddingX'']
          \<and> map_of B (js ''flexGrow'') = Some (Num 1)
          \<and> map_of B (js ''borderStyle'') = Some (Str (js ''round''))
          \<and> map_of B (js ''paddingX'') = Some (Num 1)
          \<and> map_of B (js ''gap'') = Some (Num 1)
          \<and> map_of B (js ''borderColor'') = Some (js_get colorByVariant (variant p))
          \<and> filter (\<lambda>kv. fst kv \<noteq> js ''borderColor'') B
              = filter (\<lambda>kv. fst kv \<noteq> js ''borderColor'') B')
   \<and> map fst (styles_container \<lparr>variant = v\<rparr>) =
     [js ''flexGrow'', js ''borderStyle'', js ''borderColor'', js ''gap'', js ''paddingX'']
   \<and> map_of (styles_container \<lparr>variant = v\<rparr>) (js ''flexGrow'') = Some (Num 1)
   \<and> map_of (styles_container \<lparr>variant = v\<rparr>) (js ''borderStyle'') = Some (Str (js ''round''))
   \<and> map_of (styles_container \<lparr>variant = v\<rparr>) (js ''paddingX'') = Some (Num 1)
   \<and> map_of (styles_container \<lparr>variant = v\<rparr>) (js ''gap'') = Some (Num 1)
   \<and> map_of (styles_container \<lparr>variant = v\<rparr>) (js ''borderColor'')
         = Some (js_get colorByVariant v)
   \<and> filter (\<lambda>kv. fst kv \<noteq> js ''borderColor'') (styles_container \<lparr>variant = v\<rparr>)
       = filter (\<lambda>kv. fst kv \<noteq> js ''borderColor'') (styles_container \<lparr>variant = w\<rparr>)
   \<and> distinct (map (\<lambda>x. map_of (styles_container \<lparr>variant = x\<rparr>) (js ''borderColor''))
         variants)"
proof -
  have border: "map_of (styles_container \<lparr>variant = x\<rparr>) (js ''borderColor'')
      = Some (js_get colorByVariant x)" for x
    by (simp add: styles_container_def js_def)
  have fixed: "filter (\<lambda>kv. fst kv \<noteq> js ''borderColor'') (styles_container \<lparr>variant = x\<rparr>)
      = [(js ''flexGrow'', Num 1), (js ''borderStyle'', Str (js ''round'')),
         (js ''gap'', Num 1), (js ''paddingX'', Num 1)]" for x
    by (simp add: styles_container_def js_def)
  have colours: "distinct (map (\<lambda>x. map_of (styles_container \<lparr>variant = x\<rparr>) (js ''borderColor''))
         variants)"
    by (simp add: border variants_def colorByVariant_get) (simp add: js_def)
  have attrs: "map fst (styles_container \<lparr>variant = x\<rparr>) =
     [js ''flexGrow'', js ''borderStyle'', js ''borderColor'', js ''gap'', js ''paddingX'']"
    "map_of (styles_container \<lparr>variant = x\<rparr>) (js ''flexGrow'') = Some (Num 1)"
    "map_of (styles_container \<lparr>variant = x\<rparr>) (js ''borderStyle'') = Some (Str (js ''round''))"
    "map_of (styles_container \<lparr>variant = x\<rparr>) (js ''paddingX'') = Some (Num 1)"
    "map_of (styles_container \<lparr>variant = x\<rparr>) (js ''gap'') = Some (Num 1)" for x
    by (simp_all add: styles_container_def js_def)
  have node: "\<exists>B cs B' cs'.
            Alert hook u p = Inr (Elem Box B cs)
          \<and> Alert hook u' q = Inr (Elem Box B' cs')
          \<and> B = styles_container \<lparr>variant = variant p\<rparr>
          \<and> B' = styles_container \<lparr>variant = variant q\<rparr>
          \<and> map fst B =
              [js ''flexGrow'', js ''borderStyle'', js ''borderColor'', js ''gap'', js ''paddingX'']
          \<and> map_of B (js ''flexGrow'') = Some (Num 1)
          \<and> map_of B (js ''borderStyle'') = Some (Str (js ''round''))
          \<and> map_of B (js ''paddingX'') = Some (Num 1)
          \<and> map_of B (js ''gap'') = Some (Num 1)
          \<and> map_of B (js ''borderColor'') = Some (js_get colorByVariant (variant p))
          \<and> filter (\<lambda>kv. fst kv \<noteq> js ''borderColor'') B
              = filter (\<lambda>kv. fst kv \<noteq> js ''borderColor'') B'"
    using Alert_returns [of hook p u, OF assms(1)] Alert_returns [of hook q u', OF assms(2)]
    by (simp add: attrs border fixed)
  show ?thesis
    by (intro conjI node attrs border colours) (simp only: fixed)
qed

text \<open>
  An info alert and an error alert: the two containers differ in the border colour, blue
  and red, and in nothing else.
\<close>

theorem container_attributes_fixed_witness:
  "useComponentTheme (js ''Alert'') \<lparr>variant = js ''info''\<rparr> = None
   \<and> useComponentTheme (js ''Alert'') \<lparr>variant = js ''error''\<rparr> = None
   \<and> (\<exists>cs cs'.
         Alert useComponentTheme True
           \<lparr>variant = js ''info'', children = Str (js ''Message''), title = None\<rparr> =
           Inr (Elem Box
                  [(js ''flexGrow'', Num 1), (js ''borderStyle'', Str (js ''round'')),
                   (js ''borderColor'', Str (js ''blue'')),
                   (js ''gap'', Num 1), (js ''paddingX'', Num 1)] cs)
       \<and> Alert useComponentTheme False
           \<lparr>variant = js ''error'', children = Str (js ''Message''), title = Some (js ''Error'')\<rparr> =
           Inr (Elem Box
                  [(js ''flexGrow'', Num 1), (js ''borderStyle'', Str (js ''round'')),
                   (js ''borderColor'', Str (js ''red'')),
                   (js ''gap'', Num 1), (js ''paddingX'', Num 1)] cs'))"
proof -
  have hook: "useComponentTheme (js ''Alert'') \<lparr>variant = v\<rparr> = None" for v
    by (simp add: useComponentTheme_def)
  show ?thesis
    using container_attributes_fixed [of useComponentTheme
        "\<lparr>variant = js ''info'', children = Str (js ''Message''), title = None\<rparr>"
        "\<lparr>variant = js ''error'', children = Str (js ''Message''), title = Some (js ''Error'')\<rparr>"
        True False] hook
    by (auto simp add: styles_container_def colorByVariant_get)
qed

section \<open>The layout that Alert returns\<close>

text \<open>
  Claim C2. The glyph that \<^verbatim>\<open>Alert\<close> puts into the icon node is the member of
  \<^verbatim>\<open>iconMap\<close> under the variant. For the four variants it is U+2139, U+2714, U+2718,
  U+26A0 when Unicode is supported, and \<^verbatim>\<open>i\<close>, U+221A, U+00D7, U+203C when it is not.
\<close>

theorem icon_glyph_by_capability:
  assumes "hook (js ''Alert'') \<lparr>variant = variant p\<rparr> = None"
  shows "(\<exists>B S C K. Alert hook u p =
            Inr (Elem Box B
                   [Elem Box S [Elem Text C [js_get (iconMap (useFigures u)) (variant p)]], K]))
       \<and> js_get (iconMap (useFigures True)) (js ''info'') = Str [0x2139]
       \<and> js_get (iconMap (useFigures True)) (js ''success'') = Str [0x2714]
       \<and> js_get (iconMap (useFigures True)) (js ''error'') = Str [0x2718]
       \<and> js_get (iconMap (useFigures True)) (js ''warning'') = Str [0x26A0]
       \<and> js_get (iconMap (useFigures False)) (js ''info'') = Str (js ''i'')
       \<and> js_get (iconMap (useFigures False)) (js ''success'') = Str [0x221A]
       \<and> js_get (iconMap (useFigures False)) (js ''error'') = Str [0xD7]
       \<and> js_get (iconMap (useFigures False)) (js ''warning'') = Str [0x203C]"
proof -
  have i: "js ''i'' = [0x69]"
    by (simp add: js_def)
  from Alert_returns [of hook p u, OF assms]
  have "\<exists>B S C K. Alert hook u p =
            Inr (Elem Box B
                   [Elem Box S [Elem Text C [js_get (iconMap (useFigures u)) (variant p)]], K])"
    by blast
  then show ?thesis
    by (simp only: iconMap_get useFigures_fields i simp_thms)
qed

text \<open>
  The second end-to-end scenario of the spec: an error alert without Unicode support shows
  U+00D7.
\<close>

theorem icon_glyph_by_capability_witness:
  "useComponentTheme (js ''Alert'') \<lparr>variant = js ''error''\<rparr> = None
   \<and> (\<exists>B S C K. Alert useComponentTheme False
          \<lparr>variant = js ''error'', children = Str (js ''Message''), title = Some (js ''Error'')\<rparr> =
        Inr (Elem Box B [Elem Box S [Elem Text C [Str [0xD7]]], K]))"
proof -
  have hook: "useComponentTheme (js ''Alert'')
      \<lparr>variant = variant \<lparr>variant = js ''error'', children = Str (js ''Message''),
         title = Some (js ''Error'')\<rparr>\<rparr> = None"
    by (simp add: useComponentTheme_def)
  show ?thesis
    using icon_glyph_by_capability [of useComponentTheme _ False, OF hook] hook
    by auto
qed

text \<open>
  Claim C4. With \<^verbatim>\<open>title\<close> absent or empty the content slot holds the falsy title
  value and the message node, so its only element is the message node; with a non-empty
  title \<open>X\<close> it holds a bold text node with content \<open>X\<close> followed by the message
  node.
\<close>

theorem title_gating:
  assumes "hook (js ''Alert'') \<lparr>variant = variant p\<rparr> = None"
  shows "(title p = None \<longrightarrow>
            (\<exists>B I cs. Alert hook u p = Inr (Elem Box B [I, Elem Box (styles_content ()) cs])
              \<and> cs = [Undefined, Elem Text [] [children p]]
              \<and> filter is_element cs = [Elem Text [] [children p]]))
       \<and> (title p = Some [] \<longrightarrow>
            (\<exists>B I cs. Alert hook u p = Inr (Elem Box B [I, Elem Box (styles_content ()) cs])
              \<and> cs = [Str [], Elem Text [] [children p]]
              \<and> filter is_element cs = [Elem Text [] [children p]]))
       \<and> (\<forall>X. title p = Some X \<and> X \<noteq> [] \<longrightarrow>
            (\<exists>B I cs. Alert hook u p = Inr (Elem Box B [I, Elem Box (styles_content ()) cs])
              \<and> cs = [Elem Text [(js ''bold'', Bool True)] [Str X], Elem Text [] [children p]]
              \<and> filter is_element cs = cs))"
  using Alert_returns [of hook p u, OF assms]
  by (auto simp add: styles_title_def styles_message_def)

text \<open>
  The three cases on an info alert: no title, the empty title, the title \<^verbatim>\<open>X\<close>.
\<close>

theorem title_gating_witness:
  "useComponentTheme (js ''Alert'') \<lparr>variant = js ''info''\<rparr> = None
   \<and> (\<exists>B I. Alert useComponentTheme True
          \<lparr>variant = js ''info'', children = Str (js ''Message''), title = None\<rparr> =
        Inr (Elem Box B
               [I, Elem Box (styles_content ()) [Undefined, Elem Text [] [Str (js ''Message'')]]]))
   \<and> (\<exists>B I. Alert useComponentTheme True
          \<lparr>variant = js ''info'', children = Str (js ''Message''), title = Some []\<rparr> =
        Inr (Elem Box B
               [I, Elem Box (styles_content ()) [Str [], Elem Text [] [Str (js ''Message'')]]]))
   \<and> (\<exists>B I. Alert useComponentTheme True
          \<lparr>variant = js ''info'', children = Str (js ''Message''), title = Some (js ''X'')\<rparr> =
        Inr (Elem Box B
               [I, Elem Box (styles_content ())
                     [Elem Text [(js ''bold'', Bool True)] [Str (js ''X'')],
                      Elem Text [] [Str (js ''Message'')]]]))"
proof -
  have hook: "useComponentTheme (js ''Alert'') \<lparr>variant = js ''info''\<rparr> = None"
    by (simp add: useComponentTheme_def)
  have x: "js ''X'' \<noteq> []"
    by (simp add: js_def)
  have a: "\<exists>B I. Alert useComponentTheme True
          \<lparr>variant = js ''info'', children = Str (js ''Message''), title = None\<rparr> =
        Inr (Elem Box B
               [I, Elem Box (styles_content ()) [Undefined, Elem Text [] [Str (js ''Message'')]]])"
    using title_gating [of useComponentTheme
        "\<lparr>variant = js ''info'', children = Str (js ''Message''), title = None\<rparr>" True] hook
    by auto
  have b: "\<exists>B I. Alert useComponentTheme True
          \<lparr>variant = js ''info'', children = Str (js ''Message''), title = Some []\<rparr> =
        Inr (Elem Box B
               [I, Elem Box (styles_content ()) [Str [], Elem Text [] [Str (js ''Message'')]]])"
    using title_gating [of useComponentTheme
        "\<lparr>variant = js ''info'', children = Str (js ''Message''), title = Some []\<rparr>" True] hook
    by auto
  have c: "\<exists>B I. Alert useComponentTheme True
          \<lparr>variant = js ''info'', children = Str (js ''Message''), title = Some (js ''X'')\<rparr> =
        Inr (Elem Box B
               [I, Elem Box (styles_content ())
                     [Elem Text [(js ''bold'', Bool True)] [Str (js ''X'')],
                      Elem Text [] [Str (js ''Message'')]]])"
    using title_gating [of useComponentTheme
        "\<lparr>variant = js ''info'', children = Str (js ''Message''), title = Some (js ''X'')\<rparr>" True]
      hook x
    by auto
  from hook a b c show ?thesis by blast
qed

text \<open>
  Claim C5. Whenever the theme hook returns, \<^verbatim>\<open>Alert\<close> returns a layout whose
  message node has exactly the caller's \<^verbatim>\<open>children\<close> as its content, whatever that
  value is, and has no style attribute at all (the message style is the empty object), so no
  emphasis. Whether the hook returns does not depend on the message: it only sees the
  variant.
\<close>

theorem message_pass_through:
  assumes "hook (js ''Alert'') \<lparr>variant = variant p\<rparr> = None"
  shows "(\<exists>B I f. Alert hook u p =
            Inr (Elem Box B [I, Elem Box (styles_content ()) [f, Elem Text [] [children p]]]))
       \<and> styles_message () = []"
  using Alert_returns [of hook p u, OF assms]
  by (simp add: styles_message_def)

text \<open>
  The empty message and a message of three spaces.
\<close>

theorem message_pass_through_witness:
  "useComponentTheme (js ''Alert'') \<lparr>variant = js ''info''\<rparr> = None
   \<and> (\<exists>B I f. Alert useComponentTheme True
          \<lparr>variant = js ''info'', children = Str [], title = None\<rparr> =
        Inr (Elem Box B [I, Elem Box (styles_content ()) [f, Elem Text [] [Str []]]]))
   \<and> (\<exists>B I f. Alert useComponentTheme True
          \<lparr>variant = js ''info'', children = Str (js ''   ''), title = None\<rparr> =
        Inr (Elem Box B [I, Elem Box (styles_content ()) [f, Elem Text [] [Str (js ''   '')]]]))"
proof -
  have hook: "useComponentTheme (js ''Alert'') \<lparr>variant = js ''info''\<rparr> = None"
    by (simp add: useComponentTheme_def)
  show ?thesis
    using message_pass_through [of useComponentTheme
        "\<lparr>variant = js ''info'', children = Str [], title = None\<rparr>" True]
      message_pass_through [of useComponentTheme
        "\<lparr>variant = js ''info'', children = Str (js ''   ''), title = None\<rparr>" True]
      hook
    by simp
qed

text \<open>
  Claim C6. With and without Unicode support \<^verbatim>\<open>Alert\<close> returns layouts with the same
  container attributes and the same icon colour, the member of the colour table under the
  variant; only the glyph may differ.
\<close>

theorem color_stability:
  assumes "hook (js ''Alert'') \<lparr>variant = variant p\<rparr> = None"
  shows "\<exists>g g' K.
           Alert hook True p =
             Inr (Elem Box
                    [(js ''flexGrow'', Num 1), (js ''borderStyle'', Str (js ''round'')),
                     (js ''borderColor'', js_get colorByVariant (variant p)),
                     (js ''gap'', Num 1), (js ''paddingX'', Num 1)]
                    [Elem Box [(js ''flexShrink'', Num 0)]
                       [Elem Text [(js ''color'', js_get colorByVariant (variant p))] [g]], K])
         \<and> Alert hook False p =
             Inr (Elem Box
                    [(js ''flexGrow'', Num 1), (js ''borderStyle'', Str (js ''round'')),
                     (js ''borderColor'', js_get colorByVariant (variant p)),
                     (js ''gap'', Num 1), (js ''paddingX'', Num 1)]
                    [Elem Box [(js ''flexShrink'', Num 0)]
                       [Elem Text [(js ''color'', js_get colorByVariant (variant p))] [g']], K])"
  using Alert_returns [of hook p True, OF assms] Alert_returns [of hook p False, OF assms]
  by (simp add: styles_container_def styles_iconContainer_def styles_icon_def)

text \<open>
  The first end-to-end scenario of the spec: a success alert is green either way.
\<close>

theorem color_stability_witness:
  "useComponentTheme (js ''Alert'') \<lparr>variant = js ''success''\<rparr> = None
   \<and> (\<exists>g g' K.
           Alert useComponentTheme True
               \<lparr>variant = js ''success'', children = Str (js ''Message''),
                  title = Some (js ''Success'')\<rparr> =
             Inr (Elem Box
                    [(js ''flexGrow'', Num 1), (js ''borderStyle'', Str (js ''round'')),
                     (js ''borderColor'', Str (js ''green'')),
                     (js ''gap'', Num 1), (js ''paddingX'', Num 1)]
                    [Elem Box [(js ''flexShrink'', Num 0)]
                       [Elem Text [(js ''color'', Str (js ''green''))] [g]], K])
         \<and> Alert useComponentTheme False
               \<lparr>variant = js ''success'', children = Str (js ''Message''),
                  title = Some (js ''Success'')\<rparr> =
             Inr (Elem Box
                    [(js ''flexGrow'', Num 1), (js ''borderStyle'', Str (js ''round'')),
                     (js ''borderColor'', Str (js ''green'')),
                     (js ''gap'', Num 1), (js ''paddingX'', Num 1)]
                    [Elem Box [(js ''flexShrink'', Num 0)]
                       [Elem Text [(js ''color'', Str (js ''green''))] [g']], K]))"
proof -
  have hook: "useComponentTheme (js ''Alert'') \<lparr>variant = js ''success''\<rparr> = None"
    by (simp add: useComponentTheme_def)
  show ?thesis
    using color_stability [of useComponentTheme
        "\<lparr>variant = js ''success'', children = Str (js ''Message''),
           title = Some (js ''Success'')\<rparr>"] hook
    by (simp add: colorByVariant_get)
qed

text \<open>
  Claim C8. The container has exactly two children. The first is a box with the single
  attribute \<^verbatim>\<open>flexShrink\<close> 0 that holds the icon text, coloured with the variant's
  colour, which is also the container's border colour. The second is a box with
  \<^verbatim>\<open>flexShrink\<close> 1, \<^verbatim>\<open>flexGrow\<close> 1, \<^verbatim>\<open>minWidth\<close> 0, \<^verbatim>\<open>flexDirection\<close>
  column and \<^verbatim>\<open>gap\<close> 1, holding the title slot and the message node.
\<close>

theorem layout_two_slots:
  assumes "hook (js ''Alert'') \<lparr>variant = variant p\<rparr> = None"
  shows "\<exists>B f m. Alert hook u p =
           Inr (Elem Box B
                  [Elem Box [(js ''flexShrink'', Num 0)]
                     [Elem Text [(js ''color'', js_get colorByVariant (variant p))]
                        [js_get (iconMap (useFigures u)) (variant p)]],
                   Elem Box
                     [(js ''flexShrink'', Num 1), (js ''flexGrow'', Num 1),
                      (js ''minWidth'', Num 0), (js ''flexDirection'', Str (js ''column'')),
                      (js ''gap'', Num 1)]
                     [f, m]])
         \<and> map_of B (js ''borderColor'') = Some (js_get colorByVariant (variant p))"
  using Alert_returns [of hook p u, OF assms]
  by (simp add: styles_container_def styles_iconContainer_def styles_icon_def
      styles_content_def js_def)

text \<open>
  The third end-to-end scenario of the spec: a warning alert without a title.
\<close>

theorem layout_two_slots_witness:
  "useComponentTheme (js ''Alert'') \<lparr>variant = js ''warning''\<rparr> = None
   \<and> (\<exists>B f m. Alert useComponentTheme True
          \<lparr>variant = js ''warning'', children = Str (js ''Message without title''),
             title = None\<rparr> =
           Inr (Elem Box B
                  [Elem Box [(js ''flexShrink'', Num 0)]
                     [Elem Text [(js ''color'', Str (js ''yellow''))] [Str [0x26A0]]],
                   Elem Box
                     [(js ''flexShrink'', Num 1), (js ''flexGrow'', Num 1),
                      (js ''minWidth'', Num 0), (js ''flexDirection'', Str (js ''column'')),
                      (js ''gap'', Num 1)]
                     [f, m]])
         \<and> map_of B (js ''borderColor'') = Some (Str (js ''yellow'')))"
proof -
  have hook: "useComponentTheme (js ''Alert'') \<lparr>variant = js ''warning''\<rparr> = None"
    by (simp add: useComponentTheme_def)
  have glyph: "js_get (iconMap (useFigures True)) (js ''warning'') = Str [0x26A0]"
    by (simp add: js_get_def iconMap_def useFigures_def unicodeFigures_def js_def)
  show ?thesis
    using layout_two_slots [of useComponentTheme
        "\<lparr>variant = js ''warning'', children = Str (js ''Message without title''),
           title = None\<rparr>" True] hook
    by (simp add: colorByVariant_get glyph)
qed

section \<open>Variants outside the closed set\<close>

text \<open>
  The claim C1 of the spec asks for an error before any layout is produced. For the variant
  \<^verbatim>\<open>danger\<close> and a theme hook that returns, \<^verbatim>\<open>Alert\<close> returns a layout: the
  border colour, the icon colour and the glyph are \<^verbatim>\<open>undefined\<close>.
\<close>

theorem Alert_invalid_variant_counterexample:
  "js ''danger'' \<notin> set variants \<and>
   Alert useComponentTheme True
     \<lparr>variant = js ''danger'', children = Str (js ''Message''), title = None\<rparr> =
   Inr (Elem Box
          [(js ''flexGrow'', Num 1), (js ''borderStyle'', Str (js ''round'')),
           (js ''borderColor'', Undefined), (js ''gap'', Num 1), (js ''paddingX'', Num 1)]
          [Elem Box [(js ''flexShrink'', Num 0)]
             [Elem Text [(js ''color'', Undefined)] [Undefined]],
           Elem Box
             [(js ''flexShrink'', Num 1), (js ''flexGrow'', Num 1), (js ''minWidth'', Num 0),
              (js ''flexDirection'', Str (js ''column'')), (js ''gap'', Num 1)]
             [Undefined, Elem Text [] [Str (js ''Message'')]]])"
proof -
  have out: "js ''danger'' \<notin> set variants"
    by (simp add: variants_def js_def)
  have np: "js ''danger'' \<notin> set Object_prototype"
    by (simp add: Object_prototype_def js_def)
  show ?thesis
    using out np
    by (simp add: Alert_def Let_def useComponentTheme_def js_get_outside iconMap_get_outside
        styles_container_def styles_iconContainer_def styles_icon_def styles_content_def
        styles_message_def)
qed

text \<open>
  Claim C1, as the code has it. \<^verbatim>\<open>Alert\<close> does not validate the variant: for a variant
  outside the closed set it raises an error exactly when the theme hook raises one, and
  otherwise returns the usual layout, in which the border colour, the icon colour and the
  glyph are all the same non-string value: \<^verbatim>\<open>undefined\<close>, or the inherited member when
  the variant names a property of \<^verbatim>\<open>Object.prototype\<close>. No style of one of the four
  variants is substituted.
\<close>

theorem Alert_invalid_variant:
  assumes "v \<notin> set variants"
  shows "(Alert hook u \<lparr>variant = v, children = c, title = t\<rparr> = Inl e
            \<longleftrightarrow> hook (js ''Alert'') \<lparr>variant = v\<rparr> = Some e)
       \<and> (hook (js ''Alert'') \<lparr>variant = v\<rparr> = None \<longrightarrow>
            (\<exists>x K. Alert hook u \<lparr>variant = v, children = c, title = t\<rparr> =
               Inr (Elem Box
                      [(js ''flexGrow'', Num 1), (js ''borderStyle'', Str (js ''round'')),
                       (js ''borderColor'', x), (js ''gap'', Num 1), (js ''paddingX'', Num 1)]
                      [Elem Box [(js ''flexShrink'', Num 0)] [Elem Text [(js ''color'', x)] [x]], K])
               \<and> x = (if v \<in> set Object_prototype then Inherited v else Undefined)))"
proof (intro conjI impI)
  show "Alert hook u \<lparr>variant = v, children = c, title = t\<rparr> = Inl e
          \<longleftrightarrow> hook (js ''Alert'') \<lparr>variant = v\<rparr> = Some e"
    by (simp add: Alert_throws_iff)
next
  assume "hook (js ''Alert'') \<lparr>variant = v\<rparr> = None"
  then have "hook (js ''Alert'')
      \<lparr>variant = variant \<lparr>variant = v, children = c, title = t\<rparr>\<rparr> = None"
    by simp
  from Alert_returns [of hook _ u, OF this] assms
  show "\<exists>x K. Alert hook u \<lparr>variant = v, children = c, title = t\<rparr> =
               Inr (Elem Box
                      [(js ''flexGrow'', Num 1), (js ''borderStyle'', Str (js ''round'')),
                       (js ''borderColor'', x), (js ''gap'', Num 1), (js ''paddingX'', Num 1)]
                      [Elem Box [(js ''flexShrink'', Num 0)] [Elem Text [(js ''color'', x)] [x]], K])
               \<and> x = (if v \<in> set Object_prototype then Inherited v else Undefined)"
    by (simp add: js_get_outside iconMap_get_outside styles_container_def
        styles_iconContainer_def styles_icon_def)
qed

text \<open>
  The variant \<^verbatim>\<open>danger\<close> with the theme hook of the spec.
\<close>

theorem Alert_invalid_variant_witness:
  "js ''danger'' \<notin> set variants
   \<and> useComponentTheme (js ''Alert'') \<lparr>variant = js ''danger''\<rparr> = None
   \<and> (\<exists>K. Alert useComponentTheme False
          \<lparr>variant = js ''danger'', children = Str (js ''Message''), title = None\<rparr> =
        Inr (Elem Box
               [(js ''flexGrow'', Num 1), (js ''borderStyle'', Str (js ''round'')),
                (js ''borderColor'', Undefined), (js ''gap'', Num 1), (js ''paddingX'', Num 1)]
               [Elem Box [(js ''flexShrink'', Num 0)]
                  [Elem Text [(js ''color'', Undefined)] [Undefined]], K]))"
proof -
  have out: "js ''danger'' \<notin> set variants"
    by (simp add: variants_def js_def)
  have np: "js ''danger'' \<notin> set Object_prototype"
    by (simp add: Object_prototype_def js_def)
  have hook: "useComponentTheme (js ''Alert'') \<lparr>variant = js ''danger''\<rparr> = None"
    by (simp add: useComponentTheme_def)
  show ?thesis
    using Alert_invalid_variant [OF out, of useComponentTheme False "Str (js ''Message'')" None]
      out np hook
    by simp
qed

text \<open>
  The claim C9 says the colour is \<^verbatim>\<open>undefined\<close> for every string outside the four.
  The string \<^verbatim>\<open>constructor\<close> is outside the four, and the member access on the colour
  table finds \<^verbatim>\<open>Object.prototype.constructor\<close>.
\<close>

theorem styles_invalid_variant_counterexample:
  "js ''constructor'' \<notin> set variants
   \<and> map_of (styles_container \<lparr>variant = js ''constructor''\<rparr>) (js ''borderColor'')
       = Some (Inherited (js ''constructor''))
   \<and> map_of (styles_icon \<lparr>variant = js ''constructor''\<rparr>) (js ''color'')
       = Some (Inherited (js ''constructor''))
   \<and> Inherited (js ''constructor'') \<noteq> Undefined"
proof -
  have out: "js ''constructor'' \<notin> set variants"
    by (simp add: variants_def js_def)
  have inh: "js ''constructor'' \<in> set Object_prototype"
    by (simp add: Object_prototype_def)
  have k1: "map_of (styles_container \<lparr>variant = w\<rparr>) (js ''borderColor'') = Some (js_get colorByVariant w)" for w
    by (simp add: styles_container_def js_def)
  have k2: "map_of (styles_icon \<lparr>variant = w\<rparr>) (js ''color'') = Some (js_get colorByVariant w)" for w
    by (simp add: styles_icon_def)
  show ?thesis
    using out inh by (simp add: k1 k2 js_get_outside)
qed

text \<open>
  Claim C9, as the code has it. For a variant outside the four the style functions return
  the usual attributes (they have no failing path); \<^verbatim>\<open>borderColor\<close> and
  \<^verbatim>\<open>color\<close> are \<^verbatim>\<open>undefined\<close> unless the variant names a property inherited
  from \<^verbatim>\<open>Object.prototype\<close>, and are that inherited member when it does.
\<close>

theorem styles_invalid_variant:
  assumes "v \<notin> set variants"
  shows "styles_container \<lparr>variant = v\<rparr> =
           [(js ''flexGrow'', Num 1), (js ''borderStyle'', Str (js ''round'')),
            (js ''borderColor'', if v \<in> set Object_prototype then Inherited v else Undefined),
            (js ''gap'', Num 1), (js ''paddingX'', Num 1)]
       \<and> styles_icon \<lparr>variant = v\<rparr> =
           [(js ''color'', if v \<in> set Object_prototype then Inherited v else Undefined)]"
  using assms by (simp add: styles_container_def styles_icon_def js_get_outside)

text \<open>
  The variants \<^verbatim>\<open>danger\<close> and \<^verbatim>\<open>toString\<close>.
\<close>

theorem styles_invalid_variant_witness:
  "js ''danger'' \<notin> set variants
   \<and> styles_container \<lparr>variant = js ''danger''\<rparr> =
           [(js ''flexGrow'', Num 1), (js ''borderStyle'', Str (js ''round'')),
            (js ''borderColor'', Undefined),
            (js ''gap'', Num 1), (js ''paddingX'', Num 1)]
   \<and> styles_icon \<lparr>variant = js ''danger''\<rparr> = [(js ''color'', Undefined)]
   \<and> js ''toString'' \<notin> set variants
   \<and> styles_container \<lparr>variant = js ''toString''\<rparr> =
           [(js ''flexGrow'', Num 1), (js ''borderStyle'', Str (js ''round'')),
            (js ''borderColor'', Inherited (js ''toString'')),
            (js ''gap'', Num 1), (js ''paddingX'', Num 1)]
   \<and> styles_icon \<lparr>variant = js ''toString''\<rparr> = [(js ''color'', Inherited (js ''toString''))]"
proof -
  have out: "js ''danger'' \<notin> set variants"
    by (simp add: variants_def js_def)
  have np: "js ''danger'' \<notin> set Object_prototype"
    by (simp add: Object_prototype_def js_def)
  have out': "js ''toString'' \<notin> set variants"
    by (simp add: variants_def js_def)
  have inh: "js ''toString'' \<in> set Object_prototype"
    by (simp add: Object_prototype_def)
  show ?thesis
    using styles_invalid_variant [OF out] styles_invalid_variant [OF out'] out np out' inh
    by simp
qed

end
